theory Spec2Isabelle
  imports Main "HOL-Library.Char_ord" "HOL-Library.List_Lexorder"
begin

section \<open>Errors\<close>

text \<open>
  Every exception the modelled code can raise is a value. \<open>IntegrityError\<close> is
  \<^verbatim>\<open>sqlite3.IntegrityError\<close> (a violated PRIMARY KEY or UNIQUE constraint),
  \<open>HTTPException code detail\<close> is FastAPI's exception, and \<open>Exception msg\<close> stands
  for any other exception, \<open>msg\<close> being \<^verbatim>\<open>str(e)\<close>. \<open>AttributeError name\<close>
  is the read of an attribute \<open>name\<close> that the object does not have.
\<close>

datatype error =
    IntegrityError
  | HTTPException nat string
  | Exception string
  | AttributeError string

section \<open>The local catalog (app.py)\<close>

subsection \<open>Tables\<close>

text \<open>
  The two tables of \<^verbatim>\<open>init_db\<close>. A row of \<^verbatim>\<open>projects\<close> and a row of
  \<^verbatim>\<open>project_files\<close> are records; a connection is the content of both tables,
  rows in insertion order. The column \<^verbatim>\<open>sha256\<close> is the only nullable one.
\<close>

record project =
  project_id :: string
  project_name :: string
  vector_store_id :: string
  status :: string
  created_at :: string
  updated_at :: string

record project_file =
  pf_project_id :: string
  file_id :: string
  filename :: string
  sha256 :: "string option"
  added_at :: string

record conn =
  projects :: "project list"
  project_files :: "project_file list"

subsection \<open>DB helpers\<close>

text \<open>
  Each helper takes the connection first and returns the connection after its commit.
  A helper that reads the clock (\<^verbatim>\<open>ts = now_iso()\<close>) takes the value read as
  \<open>ts\<close>; \<^verbatim>\<open>db_create_project\<close> takes the value of \<^verbatim>\<open>str(uuid.uuid4())\<close>
  as \<open>pid\<close>. A statement that violates a constraint of the schema raises
  \<^verbatim>\<open>sqlite3.IntegrityError\<close> and writes nothing: the result is \<open>Inl\<close> and the
  connection stays the one passed in.
\<close>

text \<open>
  \<^verbatim>\<open>INSERT INTO projects(...) VALUES(?,?,?,?,?,?)\<close> under
  \<^verbatim>\<open>project_id TEXT PRIMARY KEY\<close> and \<^verbatim>\<open>vector_store_id TEXT NOT NULL UNIQUE\<close>.
\<close>

definition db_create_project ::
  "conn \<Rightarrow> string \<Rightarrow> string \<Rightarrow> string \<Rightarrow> string \<Rightarrow> error + (conn \<times> string)" where
  "db_create_project c pid ts name vsid =
     (if pid \<in> set (map project_id (projects c)) then Inl IntegrityError
      else if vsid \<in> set (map vector_store_id (projects c)) then Inl IntegrityError
      else Inr (c\<lparr>projects := projects c @
                  [\<lparr>project_id = pid, project_name = name, vector_store_id = vsid,
                    status = ''active'', created_at = ts, updated_at = ts\<rparr>]\<rparr>, pid))"

text \<open>
  \<^verbatim>\<open>UPDATE projects SET project_name=?, updated_at=? WHERE project_id=?\<close>: every row
  the WHERE clause selects is rewritten; selecting no row is not an error in SQL.
\<close>

definition db_rename_project :: "conn \<Rightarrow> string \<Rightarrow> string \<Rightarrow> string \<Rightarrow> error + conn" where
  "db_rename_project c ts pid new_name =
     Inr (c\<lparr>projects :=
              map (\<lambda>p. if project_id p = pid
                        then p\<lparr>project_name := new_name, updated_at := ts\<rparr> else p)
                  (projects c)\<rparr>)"

text \<open>
  \<^verbatim>\<open>UPDATE projects SET status='archived', updated_at=? WHERE project_id=?\<close>.
\<close>

definition db_archive_project :: "conn \<Rightarrow> string \<Rightarrow> string \<Rightarrow> error + conn" where
  "db_archive_project c ts pid =
     Inr (c\<lparr>projects :=
              map (\<lambda>p. if project_id p = pid
                        then p\<lparr>status := ''archived'', updated_at := ts\<rparr> else p)
                  (projects c)\<rparr>)"

text \<open>
  \<^verbatim>\<open>SELECT ... FROM project_files WHERE project_id=? ORDER BY added_at DESC\<close>.
  The column is TEXT and compares bytewise, as the order on \<open>string\<close> does. Rows
  with equal \<^verbatim>\<open>added_at\<close> come in insertion order, as SQLite returns them: the
  sort is the stable one, taken downwards.
\<close>

definition db_list_project_files :: "conn \<Rightarrow> string \<Rightarrow> project_file list" where
  "db_list_project_files c pid =
     rev (sort_key added_at (rev (filter (\<lambda>r. pf_project_id r = pid) (project_files c))))"

text \<open>
  \<^verbatim>\<open>INSERT OR REPLACE INTO project_files(...) VALUES(?,?,?,?,?)\<close> under
  \<^verbatim>\<open>PRIMARY KEY (project_id, file_id)\<close>: a row with the same key is deleted, then
  the new row is inserted. The foreign key is not enforced (no
  \<^verbatim>\<open>PRAGMA foreign_keys\<close>), so the statement never raises.
\<close>

definition db_add_project_file ::
  "conn \<Rightarrow> string \<Rightarrow> string \<Rightarrow> string \<Rightarrow> string \<Rightarrow> string option \<Rightarrow> error + conn" where
  "db_add_project_file c ts pid fid fname sha =
     Inr (c\<lparr>project_files :=
              filter (\<lambda>r. \<not> (pf_project_id r = pid \<and> file_id r = fid)) (project_files c) @
              [\<lparr>pf_project_id = pid, file_id = fid, filename = fname,
                sha256 = sha, added_at = ts\<rparr>]\<rparr>)"

text \<open>
  \<^verbatim>\<open>DELETE FROM project_files WHERE project_id=? AND file_id=?\<close>.
\<close>

definition db_remove_project_file :: "conn \<Rightarrow> string \<Rightarrow> string \<Rightarrow> error + conn" where
  "db_remove_project_file c pid fid =
     Inr (c\<lparr>project_files :=
              filter (\<lambda>r. \<not> (pf_project_id r = pid \<and> file_id r = fid)) (project_files c)\<rparr>)"

text \<open>
  \<^verbatim>\<open>SELECT 1 FROM project_files WHERE project_id=? AND sha256=? LIMIT 1\<close>, then
  \<^verbatim>\<open>fetchone() is not None\<close>. A NULL \<^verbatim>\<open>sha256\<close> equals nothing.
\<close>

definition db_has_sha_in_project :: "conn \<Rightarrow> string \<Rightarrow> string \<Rightarrow> bool" where
  "db_has_sha_in_project c pid sha =
     (filter (\<lambda>r. pf_project_id r = pid \<and> sha256 r = Some sha) (project_files c) \<noteq> [])"

section \<open>The remote index (the OpenAI client of app.py and api_server.py)\<close>

text \<open>
  The client is an external service. Every call the code issues is appended to a log of
  \<open>gateway_call\<close>s, and what the service answers is a parameter: a record of functions,
  one per endpoint, each given the log of the calls issued before (so the service may
  answer the same request differently the second time) and the request. \<open>Inl msg\<close> is
  a raised exception \<open>e\<close> with \<^verbatim>\<open>str(e) = msg\<close>; \<open>Inr\<close> carries the part of the
  reply the code reads.
\<close>

type_synonym bytes = string

datatype gateway_call =
    FilesCreate string bytes string
  | FileBatchesCreate string "string list"
  | VectorStoreFilesDelete string string
  | VectorStoreFilesList string nat
  | ResponsesCreate string string string "string list"

text \<open>
  The reply of \<^verbatim>\<open>client.responses.create\<close>: the attribute \<^verbatim>\<open>output_text\<close>
  (\<open>None\<close> when the object has none) and the file citations of its output items, each
  an association list (filename, index, ...).
\<close>

record response =
  output_text :: "string option"
  annotations :: "(string \<times> string) list list"

text \<open>
  An object of the listing \<^verbatim>\<open>client.vector_stores.files.list(...).data\<close>: its
  attribute \<^verbatim>\<open>id\<close>, and its attribute \<^verbatim>\<open>file_id\<close>, \<open>None\<close> when the object
  has no such attribute. Which attributes the objects carry is the client library's
  matter, so it is part of the reply.
\<close>

record vector_store_file =
  obj_id :: string
  obj_file_id :: "string option"

record gateway =
  files_create :: "gateway_call list \<Rightarrow> string \<Rightarrow> bytes \<Rightarrow> string \<Rightarrow> string + string"
  file_batches_create :: "gateway_call list \<Rightarrow> string \<Rightarrow> string list \<Rightarrow> string + unit"
  vector_store_files_delete :: "gateway_call list \<Rightarrow> string \<Rightarrow> string \<Rightarrow> string + unit"
  vector_store_files_list ::
    "gateway_call list \<Rightarrow> string \<Rightarrow> nat \<Rightarrow> string + vector_store_file list"
  responses_create ::
    "gateway_call list \<Rightarrow> string \<Rightarrow> string \<Rightarrow> string \<Rightarrow> string list \<Rightarrow> string + response"

section \<open>The admin page (app.py)\<close>

text \<open>
  What the page reads from outside the program: the clock behind \<^verbatim>\<open>now_iso\<close> (the
  \<open>n\<close>-th reading of a run is \<open>now_iso env n\<close>), \<^verbatim>\<open>hashlib\<close>'s SHA-256 behind
  \<^verbatim>\<open>sha256_bytes\<close>, and the client.
\<close>

record env =
  now_iso :: "nat \<Rightarrow> string"
  sha256_bytes :: "bytes \<Rightarrow> string"
  client :: gateway

text \<open>
  The state a button handler works on: the connection, the log of the calls issued to
  the client, and the number of clock readings so far.
\<close>

record app_state =
  db :: conn
  calls :: "gateway_call list"
  ticks :: nat

text \<open>What a handler shows: \<^verbatim>\<open>st.info\<close>, \<^verbatim>\<open>st.success\<close> or \<^verbatim>\<open>st.error\<close>.\<close>

datatype outcome =
    Skipped
  | Uploaded string
  | Removed
  | Failed error

subsection \<open>Tab 1: upload\<close>

text \<open>
  The body of the loop \<^verbatim>\<open>for uf in uploads\<close> for one uploaded file
  \<open>(uf.name, uf.getvalue())\<close>, with its \<^verbatim>\<open>try\<close>/\<^verbatim>\<open>except Exception\<close>:
  the dedup check, \<^verbatim>\<open>client.files.create\<close>,
  \<^verbatim>\<open>client.vector_stores.file_batches.create\<close>, \<^verbatim>\<open>db_add_project_file\<close>.
\<close>

definition upload_one ::
  "env \<Rightarrow> bool \<Rightarrow> string \<Rightarrow> string \<Rightarrow> app_state \<Rightarrow> string \<times> bytes \<Rightarrow> app_state \<times> outcome" where
  "upload_one e dedup pid vs_id w uf =
     (let name = fst uf; data = snd uf; sha = sha256_bytes e data in
      if dedup \<and> db_has_sha_in_project (db w) pid sha then (w, Skipped)
      else
        (let w1 = w\<lparr>calls := calls w @ [FilesCreate name data ''assistants'']\<rparr> in
         (case files_create (client e) (calls w) name data ''assistants'' of
            Inl msg \<Rightarrow> (w1, Failed (Exception msg))
          | Inr f_id \<Rightarrow>
              (let w2 = w1\<lparr>calls := calls w1 @ [FileBatchesCreate vs_id [f_id]]\<rparr> in
               (case file_batches_create (client e) (calls w1) vs_id [f_id] of
                  Inl msg \<Rightarrow> (w2, Failed (Exception msg))
                | Inr _ \<Rightarrow>
                    (let ts = now_iso e (ticks w2); w3 = w2\<lparr>ticks := Suc (ticks w2)\<rparr> in
                     (case db_add_project_file (db w3) ts pid f_id name (Some sha) of
                        Inl err \<Rightarrow> (w3, Failed err)
                      | Inr c \<Rightarrow> (w3\<lparr>db := c\<rparr>, Uploaded f_id))))))))"

text \<open>The loop over \<^verbatim>\<open>uploads\<close> when the upload button is pressed.\<close>

fun tab_upload :: "env \<Rightarrow> bool \<Rightarrow> string \<Rightarrow> string \<Rightarrow> app_state \<Rightarrow> (string \<times> bytes) list
    \<Rightarrow> app_state \<times> outcome list" where
  "tab_upload e dedup pid vs_id w [] = (w, [])"
| "tab_upload e dedup pid vs_id w (uf # uploads) =
     (case upload_one e dedup pid vs_id w uf of
        (w', out) \<Rightarrow>
          (case tab_upload e dedup pid vs_id w' uploads of
             (w'', outs) \<Rightarrow> (w'', out # outs)))"

text \<open>
  The rows of project \<open>pid\<close> that carry the fingerprint \<open>sha\<close>: the ProjectDocument
  rows the dedup invariant counts.
\<close>

definition rows_with_sha :: "conn \<Rightarrow> string \<Rightarrow> string \<Rightarrow> project_file list" where
  "rows_with_sha c pid sha =
     filter (\<lambda>r. pf_project_id r = pid \<and> sha256 r = Some sha) (project_files c)"

subsection \<open>Tab 2: remove\<close>

text \<open>
  The handler of the remove button. \<open>fid\<close> is \<^verbatim>\<open>file_id.strip()\<close>, which the
  button's \<^verbatim>\<open>disabled\<close> condition makes non-empty.
\<close>

definition tab_list_remove :: "env \<Rightarrow> string \<Rightarrow> string \<Rightarrow> app_state \<Rightarrow> string \<Rightarrow> app_state \<times> outcome" where
  "tab_list_remove e pid vs_id w fid =
     (let w1 = w\<lparr>calls := calls w @ [VectorStoreFilesDelete vs_id fid]\<rparr> in
      case vector_store_files_delete (client e) (calls w) vs_id fid of
        Inl msg \<Rightarrow> (w1, Failed (Exception msg))
      | Inr _ \<Rightarrow>
          (case db_remove_project_file (db w1) pid fid of
             Inl err \<Rightarrow> (w1, Failed err)
           | Inr c \<Rightarrow> (w1\<lparr>db := c\<rparr>, Removed)))"

subsection \<open>Tab 3: reconciliation\<close>

text \<open>
  Streamlit runs the whole script again on every interaction, and \<^verbatim>\<open>st.button\<close>
  returns \<^verbatim>\<open>True\<close> only in the run that the press of this very button has
  triggered; in every other run, one triggered by another button included, it returns
  \<^verbatim>\<open>False\<close>. \<open>pressed\<close> is the button whose press triggered the run, if a button
  did.
\<close>

datatype button = ReconcileButton | RepairButton

definition st_button :: "button option \<Rightarrow> button \<Rightarrow> bool" where
  "st_button pressed b = (pressed = Some b)"

text \<open>
  \<^verbatim>\<open>[r.file_id for r in remote]\<close>: \<open>None\<close> when an object of the listing has no
  attribute \<^verbatim>\<open>file_id\<close>, since the read raises \<^verbatim>\<open>AttributeError\<close>.
\<close>

fun file_ids :: "vector_store_file list \<Rightarrow> string list option" where
  "file_ids [] = Some []"
| "file_ids (r # rs) =
     (case obj_file_id r of
        None \<Rightarrow> None
      | Some f \<Rightarrow> (case file_ids rs of None \<Rightarrow> None | Some fs \<Rightarrow> Some (f # fs)))"

text \<open>
  The document ids the catalog holds for a project, read off the table itself: the
  local set that reconciliation is about.
\<close>

definition doc_ids :: "conn \<Rightarrow> string \<Rightarrow> string set" where
  "doc_ids c pid = file_id ` {r \<in> set (project_files c). pf_project_id r = pid}"

text \<open>
  The read-only part of the handler: list the vector store (\<^verbatim>\<open>limit=200\<close>), read
  the ids, list the catalog, and sort the two set differences. The result is
  \<open>(missing_in_remote, missing_in_local)\<close>.
\<close>

definition reconcile ::
  "env \<Rightarrow> string \<Rightarrow> string \<Rightarrow> app_state \<Rightarrow> app_state \<times> (error + string list \<times> string list)" where
  "reconcile e pid vs_id w =
     (let w1 = w\<lparr>calls := calls w @ [VectorStoreFilesList vs_id 200]\<rparr> in
      case vector_store_files_list (client e) (calls w) vs_id 200 of
        Inl msg \<Rightarrow> (w1, Inl (Exception msg))
      | Inr remote \<Rightarrow>
          (case file_ids remote of
             None \<Rightarrow> (w1, Inl (AttributeError ''file_id''))
           | Some ids \<Rightarrow>
               (let remote_file_ids = set ids;
                    local = db_list_project_files (db w1) pid;
                    local_file_ids = set (map file_id local);
                    missing_in_remote = sorted_list_of_set (local_file_ids - remote_file_ids);
                    missing_in_local = sorted_list_of_set (remote_file_ids - local_file_ids)
                in (w1, Inr (missing_in_remote, missing_in_local)))))"

text \<open>
  The loop \<^verbatim>\<open>for fid in missing_in_local: db_add_project_file(pid, fid, filename=fid,
  sha256=None)\<close>; an exception leaves the loop with the rows added so far.
\<close>

fun repair :: "env \<Rightarrow> string \<Rightarrow> string list \<Rightarrow> app_state \<Rightarrow> app_state \<times> error option" where
  "repair e pid [] w = (w, None)"
| "repair e pid (fid # fids) w =
     (let ts = now_iso e (ticks w); w1 = w\<lparr>ticks := Suc (ticks w)\<rparr> in
      case db_add_project_file (db w1) ts pid fid fid None of
        Inl err \<Rightarrow> (w1, Some err)
      | Inr c \<Rightarrow> repair e pid fids (w1\<lparr>db := c\<rparr>))"

text \<open>
  What one run of the tab shows: nothing (\<open>Idle\<close>), the two lists, the success line of
  the repair, or \<^verbatim>\<open>st.error\<close>.
\<close>

datatype sync_outcome =
    Idle
  | Report "string list" "string list"
  | Repaired "string list" "string list"
  | SyncFailed error

text \<open>
  One run of the tab's script. The repair button is created inside the block of the
  reconcile button, and only when \<open>missing_in_local\<close> is not empty; the repair loop
  sits inside the block of the repair button.
\<close>

definition tab_sync ::
  "env \<Rightarrow> string \<Rightarrow> string \<Rightarrow> button option \<Rightarrow> app_state \<Rightarrow> app_state \<times> sync_outcome" where
  "tab_sync e pid vs_id pressed w =
     (if st_button pressed ReconcileButton then
        (case reconcile e pid vs_id w of
           (w1, Inl err) \<Rightarrow> (w1, SyncFailed err)
         | (w1, Inr (missing_in_remote, missing_in_local)) \<Rightarrow>
             if missing_in_local \<noteq> [] then
               (if st_button pressed RepairButton then
                  (case repair e pid missing_in_local w1 of
                     (w2, None) \<Rightarrow> (w2, Repaired missing_in_remote missing_in_local)
                   | (w2, Some err) \<Rightarrow> (w2, SyncFailed err))
                else (w1, Report missing_in_remote missing_in_local))
             else (w1, Report missing_in_remote missing_in_local))
      else (w, Idle))"

section \<open>The answering endpoint (api_server.py)\<close>

text \<open>
  The module's constants: \<^verbatim>\<open>OPENAI_MODEL\<close> and \<^verbatim>\<open>DB_PATH\<close> are read from the
  process environment, \<^verbatim>\<open>INSTRUCTIONS\<close> is the fixed prompt (a literal of the
  source, taken here as a value since nothing depends on its words), and the client.
\<close>

record api_env =
  OPENAI_MODEL :: string
  DB_PATH :: string
  INSTRUCTIONS :: string
  api_client :: gateway

record ChatReq =
  req_project_id :: string
  user_id :: string
  message :: string

record ChatResp =
  answer :: string
  citations :: "(string \<times> string) list list"

text \<open>
  \<^verbatim>\<open>get_conn\<close>: the file at \<^verbatim>\<open>DB_PATH\<close> is the catalog, \<open>dbfile = Some c\<close>, or
  it does not exist, \<open>dbfile = None\<close>.
\<close>

definition get_conn :: "api_env \<Rightarrow> conn option \<Rightarrow> error + conn" where
  "get_conn e dbfile =
     (case dbfile of
        None \<Rightarrow> Inl (HTTPException 500 (''DB file not found: '' @ DB_PATH e))
      | Some c \<Rightarrow> Inr c)"

text \<open>
  \<^verbatim>\<open>SELECT vector_store_id FROM projects WHERE project_id=? AND status='active'\<close>,
  then \<^verbatim>\<open>fetchone()\<close>: the first matching row, if any.
\<close>

definition get_vector_store_id :: "api_env \<Rightarrow> conn option \<Rightarrow> string \<Rightarrow> error + string" where
  "get_vector_store_id e dbfile pid =
     (case get_conn e dbfile of
        Inl err \<Rightarrow> Inl err
      | Inr c \<Rightarrow>
          (case find (\<lambda>p. project_id p = pid \<and> status p = ''active'') (projects c) of
             None \<Rightarrow> Inl (HTTPException 404 (''project_id not found or inactive: '' @ pid))
           | Some row \<Rightarrow>
               (let vs_id = vector_store_id row in
                if vs_id = [] then
                  Inl (HTTPException 500 (''vector_store_id is empty for project_id: '' @ pid))
                else Inr vs_id)))"

text \<open>
  \<^verbatim>\<open>POST /chat\<close>. The handler takes the log of the calls issued to the client so
  far and returns it with its result; it writes nothing to the catalog. The answer is
  \<^verbatim>\<open>getattr(resp, "output_text", None) or ""\<close>.
\<close>

definition chat ::
  "api_env \<Rightarrow> conn option \<Rightarrow> gateway_call list \<Rightarrow> ChatReq
     \<Rightarrow> (error + ChatResp) \<times> gateway_call list" where
  "chat e dbfile log req =
     (case get_vector_store_id e dbfile (req_project_id req) of
        Inl err \<Rightarrow> (Inl err, log)
      | Inr vs_id \<Rightarrow>
          (let log1 = log @ [ResponsesCreate (OPENAI_MODEL e) (INSTRUCTIONS e)
                               (message req) [vs_id]] in
           (case responses_create (api_client e) log (OPENAI_MODEL e) (INSTRUCTIONS e)
                   (message req) [vs_id] of
              Inl msg \<Rightarrow> (Inl (HTTPException 500 (''OpenAI call failed: '' @ msg)), log1)
            | Inr resp \<Rightarrow>
                (let answer = (case output_text resp of None \<Rightarrow> [] | Some t \<Rightarrow> t) in
                 (Inr \<lparr>answer = answer, citations = []\<rparr>, log1)))))"

section \<open>The voice bridge (stt\_tts\_utils.py)\<close>

text \<open>
  The \<^verbatim>\<open>client\<close> argument is duck-typed: a Google speech client, a Google TTS
  client, an OpenAI client, or \<^verbatim>\<open>None\<close>. It is modelled by the methods the code
  may call on it; a method the object does not have is \<open>None\<close>, and calling it raises
  \<^verbatim>\<open>AttributeError\<close>. A method that is there answers \<open>Inl msg\<close> (it raised) or
  \<open>Inr\<close> with the part of the reply the code reads:
  \<^item> \<open>recognize language_code pcm\<close>: \<^verbatim>\<open>response.results\<close>, each result being the
    transcripts of its alternatives;
  \<^item> \<open>synthesize_speech text language_code name\<close>: \<^verbatim>\<open>response.audio_content\<close>;
  \<^item> \<open>transcriptions_create model file language\<close>: \<^verbatim>\<open>transcript.text\<close>;
  \<^item> \<open>speech_create model voice input\<close>: \<^verbatim>\<open>response.content\<close>.
\<close>

record voice_client =
  recognize :: "(string \<Rightarrow> bytes \<Rightarrow> string + string list list) option"
  synthesize_speech :: "(string \<Rightarrow> string \<Rightarrow> string option \<Rightarrow> string + bytes) option"
  transcriptions_create :: "(string \<Rightarrow> bytes \<Rightarrow> string \<Rightarrow> string + string) option"
  speech_create :: "(string \<Rightarrow> string \<Rightarrow> string \<Rightarrow> string + bytes) option"

text \<open>
  What a provider implementation does that can be observed: it decodes the audio with
  pydub, calls the provider, and prints a line when it catches an exception (\<open>Printed\<close>
  carries the fixed prefix of the line).
\<close>

datatype voice_event =
    Decoded bytes
  | Recognize string bytes
  | SynthesizeSpeech string string "string option"
  | TranscriptionsCreate string bytes string
  | SpeechCreate string string string
  | Printed string

text \<open>Python's \<^verbatim>\<open>needle in haystack\<close> on strings.\<close>

fun str_in :: "string \<Rightarrow> string \<Rightarrow> bool" where
  "str_in needle [] = (needle = [])"
| "str_in needle (c # cs) = (take (length needle) (c # cs) = needle \<or> str_in needle cs)"

text \<open>Python's \<^verbatim>\<open>" ".join(parts)\<close>.\<close>

fun join_space :: "string list \<Rightarrow> string" where
  "join_space [] = []"
| "join_space [p] = p"
| "join_space (p # q # ps) = p @ '' '' @ join_space (q # ps)"

text \<open>
  \<^verbatim>\<open>[result.alternatives[0].transcript for result in response.results]\<close>: \<open>None\<close>
  when a result has no alternative (the index raises).
\<close>

fun first_transcripts :: "string list list \<Rightarrow> string list option" where
  "first_transcripts [] = Some []"
| "first_transcripts ([] # rs) = None"
| "first_transcripts ((t # alts) # rs) =
     (case first_transcripts rs of None \<Rightarrow> None | Some ts \<Rightarrow> Some (t # ts))"

text \<open>
  \<open>pcm\<close> is pydub's conversion of the recording to 16 kHz mono 16-bit PCM
  (\<^verbatim>\<open>AudioSegment.from_file(...).set_frame_rate(16000).set_channels(1)
  .set_sample_width(2).raw_data\<close>), \<open>Inl\<close> when it raises.
\<close>

definition google_stt ::
  "(bytes \<Rightarrow> string + bytes) \<Rightarrow> voice_client \<Rightarrow> bytes \<Rightarrow> string
     \<Rightarrow> string option \<times> voice_event list" where
  "google_stt pcm speech_client audio_bytes language_code =
     (case pcm audio_bytes of
        Inl msg \<Rightarrow> (None, [Decoded audio_bytes, Printed ''Google STT Error: ''])
      | Inr pcm_bytes \<Rightarrow>
          (case recognize speech_client of
             None \<Rightarrow> (None, [Decoded audio_bytes, Printed ''Google STT Error: ''])
           | Some call \<Rightarrow>
               (case call language_code pcm_bytes of
                  Inl msg \<Rightarrow>
                    (None, [Decoded audio_bytes, Recognize language_code pcm_bytes,
                            Printed ''Google STT Error: ''])
                | Inr results \<Rightarrow>
                    if results = [] then
                      (None, [Decoded audio_bytes, Recognize language_code pcm_bytes])
                    else
                      (case first_transcripts results of
                         None \<Rightarrow>
                           (None, [Decoded audio_bytes, Recognize language_code pcm_bytes,
                                   Printed ''Google STT Error: ''])
                       | Some ts \<Rightarrow>
                           (Some (join_space ts),
                            [Decoded audio_bytes, Recognize language_code pcm_bytes])))))"

definition google_tts ::
  "voice_client \<Rightarrow> string \<Rightarrow> string \<Rightarrow> string option
     \<Rightarrow> bytes option \<times> voice_event list" where
  "google_tts tts_client text language_code voice_name =
     (let name = (if voice_name = None \<or> voice_name = Some [] then None else voice_name) in
      case synthesize_speech tts_client of
        None \<Rightarrow> (None, [Printed ''Google TTS Error: ''])
      | Some call \<Rightarrow>
          (case call text language_code name of
             Inl msg \<Rightarrow>
               (None, [SynthesizeSpeech text language_code name, Printed ''Google TTS Error: ''])
           | Inr audio_content \<Rightarrow>
               (Some audio_content, [SynthesizeSpeech text language_code name])))"

definition openai_stt ::
  "voice_client \<Rightarrow> bytes \<Rightarrow> string \<Rightarrow> string option \<times> voice_event list" where
  "openai_stt cl audio_bytes language_code =
     (let iso_lang = (if str_in ''zh'' language_code \<or> str_in ''cmn'' language_code
                      then ''zh'' else ''en'') in
      case transcriptions_create cl of
        None \<Rightarrow> (None, [Printed ''OpenAI STT Error: ''])
      | Some call \<Rightarrow>
          (case call ''whisper-1'' audio_bytes iso_lang of
             Inl msg \<Rightarrow>
               (None, [TranscriptionsCreate ''whisper-1'' audio_bytes iso_lang,
                       Printed ''OpenAI STT Error: ''])
           | Inr transcript_text \<Rightarrow>
               (Some transcript_text,
                [TranscriptionsCreate ''whisper-1'' audio_bytes iso_lang])))"

definition openai_tts ::
  "voice_client \<Rightarrow> string \<Rightarrow> string option \<Rightarrow> bytes option \<times> voice_event list" where
  "openai_tts cl text voice_name =
     (let voice = (case voice_name of None \<Rightarrow> ''alloy''
                   | Some v \<Rightarrow> if v = [] then ''alloy'' else v) in
      case speech_create cl of
        None \<Rightarrow> (None, [Printed ''OpenAI TTS Error: ''])
      | Some call \<Rightarrow>
          (case call ''tts-1'' voice text of
             Inl msg \<Rightarrow> (None, [SpeechCreate ''tts-1'' voice text, Printed ''OpenAI TTS Error: ''])
           | Inr content \<Rightarrow> (Some content, [SpeechCreate ''tts-1'' voice text])))"

definition speech_to_text ::
  "(bytes \<Rightarrow> string + bytes) \<Rightarrow> voice_client \<Rightarrow> bytes \<Rightarrow> string \<Rightarrow> string
     \<Rightarrow> string option \<times> voice_event list" where
  "speech_to_text pcm cl audio_bytes provider language_code =
     (if provider = ''google'' then google_stt pcm cl audio_bytes language_code
      else if provider = ''openai'' then openai_stt cl audio_bytes language_code
      else (None, []))"

definition text_to_speech ::
  "voice_client \<Rightarrow> string \<Rightarrow> string \<Rightarrow> string \<Rightarrow> string option
     \<Rightarrow> bytes option \<times> voice_event list" where
  "text_to_speech cl text provider language_code voice_name =
     (if provider = ''google'' then google_tts cl text language_code voice_name
      else if provider = ''openai'' then openai_tts cl text voice_name
      else (None, []))"

section \<open>Example data\<close>

text \<open>
  Concrete inputs for the closed theorems below: a catalog with one archived project, a
  service that accepts every request, and one that refuses every request.
\<close>

definition acme_archived :: conn where
  "acme_archived =
     \<lparr>projects = [\<lparr>project_id = ''p1'', project_name = ''Acme'', vector_store_id = ''idx-1'',
                    status = ''archived'', created_at = ''t0'', updated_at = ''t1''\<rparr>],
      project_files = []\<rparr>"

definition acme_active :: conn where
  "acme_active =
     \<lparr>projects = [\<lparr>project_id = ''p1'', project_name = ''Acme'', vector_store_id = ''idx-1'',
                    status = ''active'', created_at = ''t0'', updated_at = ''t0''\<rparr>],
      project_files = []\<rparr>"

definition accepting :: gateway where
  "accepting =
     \<lparr>files_create = (\<lambda>log name data purpose. Inr (''file-'' @ name)),
      file_batches_create = (\<lambda>log vs_id file_ids. Inr ()),
      vector_store_files_delete = (\<lambda>log vs_id fid. Inr ()),
      vector_store_files_list = (\<lambda>log vs_id limit.
         Inr [\<lparr>obj_id = ''file-b'', obj_file_id = Some ''file-b''\<rparr>,
              \<lparr>obj_id = ''ext-doc-9'', obj_file_id = Some ''ext-doc-9''\<rparr>]),
      responses_create = (\<lambda>log model instructions input vs_ids.
         Inr \<lparr>output_text = Some ''See PRD_v1.2.pdf'',
              annotations = [[(''filename'', ''PRD_v1.2.pdf'')]]\<rparr>)\<rparr>"

definition refusing :: gateway where
  "refusing =
     \<lparr>files_create = (\<lambda>log name data purpose. Inl ''connection error''),
      file_batches_create = (\<lambda>log vs_id file_ids. Inl ''connection error''),
      vector_store_files_delete = (\<lambda>log vs_id fid. Inl ''connection error''),
      vector_store_files_list = (\<lambda>log vs_id limit. Inl ''connection error''),
      responses_create = (\<lambda>log model instructions input vs_ids. Inl ''connection error'')\<rparr>"

definition api_demo :: api_env where
  "api_demo = \<lparr>OPENAI_MODEL = ''gpt-4.1-mini'', DB_PATH = ''rag_admin.db'',
                INSTRUCTIONS = ''Answer from the documents only.'', api_client = accepting\<rparr>"

definition admin_demo :: env where
  "admin_demo = \<lparr>now_iso = (\<lambda>n. ''t'' @ replicate n (CHR ''+'')),
                  sha256_bytes = (\<lambda>data. ''sha:'' @ data),
                  client = accepting\<rparr>"

definition admin_offline :: env where
  "admin_offline = \<lparr>now_iso = (\<lambda>n. ''t'' @ replicate n (CHR ''+'')),
                     sha256_bytes = (\<lambda>data. ''sha:'' @ data),
                     client = refusing\<rparr>"

definition acme_two_docs :: conn where
  "acme_two_docs =
     \<lparr>projects = [\<lparr>project_id = ''p1'', project_name = ''Acme'', vector_store_id = ''idx-1'',
                    status = ''active'', created_at = ''t0'', updated_at = ''t0''\<rparr>],
      project_files =
        [\<lparr>pf_project_id = ''p1'', file_id = ''file-a'', filename = ''a.pdf'',
          sha256 = Some ''sha:AAAA'', added_at = ''s1''\<rparr>,
         \<lparr>pf_project_id = ''p1'', file_id = ''file-b'', filename = ''b.pdf'',
          sha256 = Some ''sha:BBBB'', added_at = ''s2''\<rparr>]\<rparr>"

definition acme_two_copies :: conn where
  "acme_two_copies =
     \<lparr>projects = [\<lparr>project_id = ''p1'', project_name = ''Acme'', vector_store_id = ''idx-1'',
                    status = ''active'', created_at = ''t0'', updated_at = ''t0''\<rparr>],
      project_files =
        [\<lparr>pf_project_id = ''p1'', file_id = ''file-a.pdf'', filename = ''a.pdf'',
          sha256 = Some ''sha:AAAA'', added_at = ''t''\<rparr>,
         \<lparr>pf_project_id = ''p1'', file_id = ''file-a-copy.pdf'', filename = ''a-copy.pdf'',
          sha256 = Some ''sha:AAAA'', added_at = ''t+''\<rparr>]\<rparr>"

definition google_silent :: voice_client where
  "google_silent =
     \<lparr>recognize = Some (\<lambda>language_code pcm_bytes. Inr []),
      synthesize_speech = None, transcriptions_create = None, speech_create = None\<rparr>"

definition whisper_silent :: voice_client where
  "whisper_silent =
     \<lparr>recognize = None, synthesize_speech = None,
      transcriptions_create = Some (\<lambda>model file language. Inr []),
      speech_create = None\<rparr>"

definition whisper_down :: voice_client where
  "whisper_down =
     \<lparr>recognize = None, synthesize_speech = None,
      transcriptions_create = Some (\<lambda>model file language. Inl ''timeout''),
      speech_create = None\<rparr>"

section \<open>Properties of the catalog\<close>

subsection \<open>Creating projects\<close>

lemma db_create_project_Inr:
  assumes "db_create_project c pid ts name vsid = Inr (c', r)"
  shows "pid \<notin> set (map project_id (projects c))"
    and "vsid \<notin> set (map vector_store_id (projects c))"
    and "r = pid"
    and "projects c' = projects c @
           [\<lparr>project_id = pid, project_name = name, vector_store_id = vsid,
             status = ''active'', created_at = ts, updated_at = ts\<rparr>]"
    and "project_files c' = project_files c"
  using assms by (auto simp: db_create_project_def split: if_splits)

lemma filter_none: "x \<notin> set (map f xs) \<Longrightarrow> filter (\<lambda>p. f p = x) xs = []"
  by (induction xs) auto

text \<open>
  Claim C4. When a call of \<open>db_create_project\<close> has bound the remote index \<open>vsid\<close>
  (it returned), every later call that binds the same \<open>vsid\<close>, whatever its fresh id,
  name and time, raises \<open>IntegrityError\<close>, so the catalog stays the one the first call
  left, and in it exactly one project is bound to \<open>vsid\<close>. A successful call also
  keeps the bindings of the catalog pairwise distinct.
\<close>

theorem db_create_project_conflict:
  assumes "db_create_project c pid1 ts1 name1 vsid = Inr (c1, r1)"
  shows "db_create_project c1 pid2 ts2 name2 vsid = Inl IntegrityError
       \<and> length (filter (\<lambda>p. vector_store_id p = vsid) (projects c1)) = 1
       \<and> (distinct (map vector_store_id (projects c))
            \<longrightarrow> distinct (map vector_store_id (projects c1)))"
proof -
  note facts = db_create_project_Inr [OF assms]
  have bound: "vsid \<in> set (map vector_store_id (projects c1))"
    by (simp add: facts(4))
  have second: "db_create_project c1 pid2 ts2 name2 vsid = Inl IntegrityError"
    using bound by (simp add: db_create_project_def)
  have one: "length (filter (\<lambda>p. vector_store_id p = vsid) (projects c1)) = 1"
    by (simp add: facts(4) filter_none [OF facts(2)])
  have inv: "distinct (map vector_store_id (projects c))
               \<longrightarrow> distinct (map vector_store_id (projects c1))"
    using facts(2) by (simp add: facts(4))
  from second one inv show ?thesis by blast
qed

theorem db_create_project_conflict_witness:
  "db_create_project \<lparr>projects = [], project_files = []\<rparr> ''p1'' ''t0'' ''Acme'' ''idx-1''
     = Inr (acme_active, ''p1'')
   \<and> db_create_project acme_active ''p2'' ''t2'' ''Beta'' ''idx-1'' = Inl IntegrityError
   \<and> length (filter (\<lambda>p. vector_store_id p = ''idx-1'') (projects acme_active)) = 1
   \<and> distinct (map vector_store_id (projects acme_active))"
proof -
  have first: "db_create_project \<lparr>projects = [], project_files = []\<rparr>
                 ''p1'' ''t0'' ''Acme'' ''idx-1'' = Inr (acme_active, ''p1'')"
    by (simp add: db_create_project_def acme_active_def)
  have "distinct (map vector_store_id (projects \<lparr>projects = [], project_files = []\<rparr>))"
    by simp
  with db_create_project_conflict [OF first, of "''p2''" "''t2''" "''Beta''"] first
  show ?thesis by blast
qed

subsection \<open>Archiving projects\<close>

text \<open>
  Claim C5, as the code has it. Archiving again raises nothing, but it is not a no-op:
  the UPDATE sets \<^verbatim>\<open>updated_at\<close> on every call. Here a project archived at
  \<open>t1\<close> is archived again at \<open>t2\<close>, and its stored row differs afterwards.
\<close>

theorem db_archive_project_again_counterexample:
  "db_archive_project acme_archived ''t2'' ''p1'' =
     Inr \<lparr>projects = [\<lparr>project_id = ''p1'', project_name = ''Acme'', vector_store_id = ''idx-1'',
                        status = ''archived'', created_at = ''t0'', updated_at = ''t2''\<rparr>],
          project_files = []\<rparr>
   \<and> \<lparr>projects = [\<lparr>project_id = ''p1'', project_name = ''Acme'', vector_store_id = ''idx-1'',
                      status = ''archived'', created_at = ''t0'', updated_at = ''t2''\<rparr>],
        project_files = []\<rparr> \<noteq> acme_archived"
  by (simp add: db_archive_project_def acme_archived_def)

text \<open>
  Claim C5, amended. \<open>db_archive_project\<close> always returns. It leaves the table of
  files, the number of projects and, in every row, \<open>project_id\<close>, \<open>project_name\<close>,
  \<open>vector_store_id\<close> and \<open>created_at\<close> as they were; a row of the project that is
  already archived changes in \<open>updated_at\<close> only, which becomes the time of the call;
  the rows of other projects do not change.
\<close>

theorem db_archive_project_archived:
  "\<exists>c'. db_archive_project c ts pid = Inr c'
      \<and> project_files c' = project_files c
      \<and> length (projects c') = length (projects c)
      \<and> (\<forall>i < length (projects c).
            project_id (projects c' ! i) = project_id (projects c ! i)
          \<and> project_name (projects c' ! i) = project_name (projects c ! i)
          \<and> vector_store_id (projects c' ! i) = vector_store_id (projects c ! i)
          \<and> created_at (projects c' ! i) = created_at (projects c ! i)
          \<and> (project_id (projects c ! i) = pid \<and> status (projects c ! i) = ''archived''
                \<longrightarrow> projects c' ! i = (projects c ! i)\<lparr>updated_at := ts\<rparr>)
          \<and> (project_id (projects c ! i) \<noteq> pid \<longrightarrow> projects c' ! i = projects c ! i))"
  by (simp add: db_archive_project_def)

theorem db_archive_project_archived_witness:
  "\<exists>c'. db_archive_project acme_archived ''t2'' ''p1'' = Inr c'
      \<and> project_files c' = []
      \<and> projects c' = [(projects acme_archived ! 0)\<lparr>updated_at := ''t2''\<rparr>]
      \<and> status (projects acme_archived ! 0) = ''archived''"
  using db_archive_project_archived [of acme_archived "''t2''" "''p1''"]
  by (simp add: db_archive_project_def acme_archived_def)

subsection \<open>Renaming projects\<close>

text \<open>
  Claim C6, as the code has it. Renaming a project that the catalog does not hold
  raises nothing: the UPDATE selects no row, and the helper returns with the catalog
  as it was.
\<close>

theorem db_rename_project_unknown_counterexample:
  "db_rename_project acme_active ''t2'' ''no-such-project'' ''Beta'' = Inr acme_active"
  by (simp add: db_rename_project_def acme_active_def)

text \<open>
  Claim C6, amended. \<open>db_rename_project\<close> always returns. A row of project \<open>pid\<close>
  gets the new name and the time of the call as \<open>updated_at\<close> and keeps its other
  fields; every other row, and the table of files, stay as they were; and when no row
  has the id \<open>pid\<close> the catalog is unchanged.
\<close>

theorem db_rename_project_effect:
  "\<exists>c'. db_rename_project c ts pid new_name = Inr c'
      \<and> project_files c' = project_files c
      \<and> length (projects c') = length (projects c)
      \<and> (\<forall>i < length (projects c).
            (project_id (projects c ! i) = pid
               \<longrightarrow> projects c' ! i =
                     (projects c ! i)\<lparr>project_name := new_name, updated_at := ts\<rparr>)
          \<and> (project_id (projects c ! i) \<noteq> pid \<longrightarrow> projects c' ! i = projects c ! i))
      \<and> (pid \<notin> set (map project_id (projects c)) \<longrightarrow> c' = c)"
proof -
  have "pid \<notin> set (map project_id (projects c)) \<Longrightarrow>
        map (\<lambda>p. if project_id p = pid
                  then p\<lparr>project_name := new_name, updated_at := ts\<rparr> else p) (projects c)
          = projects c"
    by (rule map_idI) auto
  then show ?thesis
    by (simp add: db_rename_project_def)
qed

theorem db_rename_project_effect_witness:
  "db_rename_project acme_active ''t2'' ''p1'' ''Beta'' =
     Inr \<lparr>projects = [\<lparr>project_id = ''p1'', project_name = ''Beta'', vector_store_id = ''idx-1'',
                        status = ''active'', created_at = ''t0'', updated_at = ''t2''\<rparr>],
          project_files = []\<rparr>
   \<and> (\<exists>c'. db_rename_project acme_active ''t2'' ''p2'' ''Beta'' = Inr c' \<and> c' = acme_active)"
  using db_rename_project_effect [of acme_active "''t2''" "''p1''" "''Beta''"]
        db_rename_project_effect [of acme_active "''t2''" "''p2''" "''Beta''"]
  by (simp add: db_rename_project_def acme_active_def)

section \<open>Properties of the answering endpoint\<close>

lemma find_none_inactive:
  assumes "\<forall>p\<in>set ps. project_id p = pid \<longrightarrow> status p \<noteq> ''active''"
  shows "find (\<lambda>p. project_id p = pid \<and> status p = ''active'') ps = None"
  using assms by (induction ps) auto

text \<open>
  Claim C3. When the catalog holds no active row for the request's \<open>project_id\<close> (the
  id is absent, or its rows have another status), \<open>chat\<close> raises the 404
  \<open>HTTPException\<close> of \<open>get_vector_store_id\<close> and the log of client calls is the one it
  was given: no call has been issued.
\<close>

theorem chat_unknown_project:
  assumes "\<forall>p\<in>set (projects c). project_id p = req_project_id req \<longrightarrow> status p \<noteq> ''active''"
  shows "chat e (Some c) log req =
           (Inl (HTTPException 404
                  (''project_id not found or inactive: '' @ req_project_id req)), log)"
  by (simp add: chat_def get_vector_store_id_def get_conn_def find_none_inactive [OF assms])

theorem chat_unknown_project_witness:
  "chat api_demo (Some acme_archived) []
     \<lparr>req_project_id = ''p1'', user_id = ''u1'', message = ''Top 3 risks?''\<rparr>
     = (Inl (HTTPException 404 ''project_id not found or inactive: p1''), [])
   \<and> chat api_demo (Some acme_active) []
     \<lparr>req_project_id = ''p7'', user_id = ''u1'', message = ''Top 3 risks?''\<rparr>
     = (Inl (HTTPException 404 ''project_id not found or inactive: p7''), [])"
proof -
  have archived: "\<forall>p\<in>set (projects acme_archived).
      project_id p = req_project_id
         \<lparr>req_project_id = ''p1'', user_id = ''u1'', message = ''Top 3 risks?''\<rparr>
        \<longrightarrow> status p \<noteq> ''active''"
    by (simp add: acme_archived_def)
  have absent: "\<forall>p\<in>set (projects acme_active).
      project_id p = req_project_id
         \<lparr>req_project_id = ''p7'', user_id = ''u1'', message = ''Top 3 risks?''\<rparr>
        \<longrightarrow> status p \<noteq> ''active''"
    by (simp add: acme_active_def)
  from chat_unknown_project [OF archived, of api_demo "[]"]
       chat_unknown_project [OF absent, of api_demo "[]"]
  show ?thesis by simp
qed

text \<open>
  Claim C7. Whenever \<open>chat\<close> returns a response, its \<open>citations\<close> are the empty list,
  and its \<open>answer\<close> is the \<open>output_text\<close> of the reply (the empty string when the reply
  has none); the annotations of the reply are not read.
\<close>

theorem chat_citations_empty:
  assumes "chat e dbfile log req = (Inr resp, log')"
  shows "citations resp = []
       \<and> (\<exists>vs_id r. get_vector_store_id e dbfile (req_project_id req) = Inr vs_id
             \<and> responses_create (api_client e) log (OPENAI_MODEL e) (INSTRUCTIONS e)
                  (message req) [vs_id] = Inr r
             \<and> answer resp = (case output_text r of None \<Rightarrow> [] | Some t \<Rightarrow> t)
             \<and> log' = log @ [ResponsesCreate (OPENAI_MODEL e) (INSTRUCTIONS e)
                               (message req) [vs_id]])"
  using assms
  by (auto simp: chat_def Let_def split: sum.splits)

theorem chat_citations_empty_witness:
  "chat api_demo (Some acme_active) []
     \<lparr>req_project_id = ''p1'', user_id = ''u1'', message = ''Top 3 risks?''\<rparr>
     = (Inr \<lparr>answer = ''See PRD_v1.2.pdf'', citations = []\<rparr>,
        [ResponsesCreate ''gpt-4.1-mini'' ''Answer from the documents only.''
           ''Top 3 risks?'' [''idx-1'']])
   \<and> citations \<lparr>answer = ''See PRD_v1.2.pdf'', citations = []\<rparr> = []"
proof -
  have run: "chat api_demo (Some acme_active) []
     \<lparr>req_project_id = ''p1'', user_id = ''u1'', message = ''Top 3 risks?''\<rparr>
     = (Inr \<lparr>answer = ''See PRD_v1.2.pdf'', citations = []\<rparr>,
        [ResponsesCreate ''gpt-4.1-mini'' ''Answer from the documents only.''
           ''Top 3 risks?'' [''idx-1'']])"
    by (simp add: chat_def get_vector_store_id_def get_conn_def api_demo_def acme_active_def
        accepting_def)
  from chat_citations_empty [OF run] run show ?thesis by blast
qed

section \<open>Properties of the voice bridge\<close>

text \<open>
  Claim C8, as the code has it. With the provider \<open>openai\<close> a transcription that
  succeeds is returned as it is: when Whisper recognises no speech and answers with
  the empty text, \<open>speech_to_text\<close> returns the empty string, not \<open>None\<close>.
\<close>

theorem speech_to_text_openai_counterexample:
  "speech_to_text (\<lambda>audio. Inr audio) whisper_silent ''RIFF'' ''openai'' ''cmn-Hant-TW''
     = (Some [], [TranscriptionsCreate ''whisper-1'' ''RIFF'' ''zh''])"
  by (simp add: speech_to_text_def openai_stt_def whisper_silent_def)

text \<open>
  Claim C8, amended. \<open>speech_to_text\<close> never raises. With the provider \<open>google\<close> it
  returns \<open>None\<close> when the provider's reply has no results, and when anything fails
  (the audio cannot be decoded, the client lacks the method, the call raises, a result
  has no alternative). With the provider \<open>openai\<close> it returns \<open>None\<close> when anything
  fails (the client lacks the method, the call raises), and otherwise the text of the
  transcription whatever it is, the empty text included.
\<close>

theorem speech_to_text_degrades:
  fixes pcm cl audio_bytes language_code
  defines "google \<equiv> fst (speech_to_text pcm cl audio_bytes ''google'' language_code)"
      and "openai \<equiv> fst (speech_to_text pcm cl audio_bytes ''openai'' language_code)"
      and "iso_lang \<equiv> (if str_in ''zh'' language_code \<or> str_in ''cmn'' language_code
                         then ''zh'' else ''en'')"
  shows "(\<forall>p call. pcm audio_bytes = Inr p \<and> recognize cl = Some call
              \<and> call language_code p = Inr [] \<longrightarrow> google = None)
       \<and> (\<forall>msg. pcm audio_bytes = Inl msg \<longrightarrow> google = None)
       \<and> (recognize cl = None \<longrightarrow> google = None)
       \<and> (\<forall>p call msg. pcm audio_bytes = Inr p \<and> recognize cl = Some call
              \<and> call language_code p = Inl msg \<longrightarrow> google = None)
       \<and> (\<forall>p call rs. pcm audio_bytes = Inr p \<and> recognize cl = Some call
              \<and> call language_code p = Inr rs \<and> first_transcripts rs = None
              \<longrightarrow> google = None)
       \<and> (transcriptions_create cl = None \<longrightarrow> openai = None)
       \<and> (\<forall>call msg. transcriptions_create cl = Some call
              \<and> call ''whisper-1'' audio_bytes iso_lang = Inl msg \<longrightarrow> openai = None)
       \<and> (\<forall>call t. transcriptions_create cl = Some call
              \<and> call ''whisper-1'' audio_bytes iso_lang = Inr t \<longrightarrow> openai = Some t)"
  unfolding google_def openai_def iso_lang_def
  by (auto simp: speech_to_text_def google_stt_def openai_stt_def Let_def
      split: sum.splits option.splits)

theorem speech_to_text_degrades_witness:
  "fst (speech_to_text (\<lambda>audio. Inr audio) google_silent ''RIFF'' ''google'' ''cmn-Hant-TW'') = None
   \<and> fst (speech_to_text (\<lambda>audio. Inl ''not audio'') google_silent ''RIFF'' ''google''
            ''cmn-Hant-TW'') = None
   \<and> fst (speech_to_text (\<lambda>audio. Inr audio) whisper_down ''RIFF'' ''openai'' ''en-US'') = None
   \<and> fst (speech_to_text (\<lambda>audio. Inr audio) whisper_down ''RIFF'' ''google'' ''en-US'') = None"
proof -
  have a: "fst (speech_to_text (\<lambda>audio. Inr audio) google_silent ''RIFF'' ''google''
                  ''cmn-Hant-TW'') = None"
    using speech_to_text_degrades
            [of "\<lambda>audio. Inr audio" "''RIFF''" google_silent "''cmn-Hant-TW''"]
    by (simp add: google_silent_def)
  have b: "fst (speech_to_text (\<lambda>audio. Inl ''not audio'') google_silent ''RIFF'' ''google''
                  ''cmn-Hant-TW'') = None"
    using speech_to_text_degrades
            [of "\<lambda>audio. Inl ''not audio''" "''RIFF''" google_silent "''cmn-Hant-TW''"]
    by simp
  have c: "fst (speech_to_text (\<lambda>audio. Inr audio) whisper_down ''RIFF'' ''openai'' ''en-US'')
             = None"
    using speech_to_text_degrades [of "\<lambda>audio. Inr audio" "''RIFF''" whisper_down "''en-US''"]
    by (simp add: whisper_down_def)
  have d: "fst (speech_to_text (\<lambda>audio. Inr audio) whisper_down ''RIFF'' ''google'' ''en-US'')
             = None"
    using speech_to_text_degrades [of "\<lambda>audio. Inr audio" "''RIFF''" whisper_down "''en-US''"]
    by (simp add: whisper_down_def)
  from a b c d show ?thesis by simp
qed

text \<open>
  Claim C10. With a provider string other than \<open>google\<close> and \<open>openai\<close>, both
  \<open>speech_to_text\<close> and \<open>text_to_speech\<close> return \<open>None\<close>, and nothing has happened:
  no decoding, no provider call, no printed line, whatever the client and the input.
\<close>

theorem unknown_provider_returns_none:
  assumes "provider \<noteq> ''google''" and "provider \<noteq> ''openai''"
  shows "speech_to_text pcm cl audio_bytes provider language_code = (None, [])
       \<and> text_to_speech cl text provider language_code voice_name = (None, [])"
  using assms by (simp add: speech_to_text_def text_to_speech_def)

theorem unknown_provider_returns_none_witness:
  "speech_to_text (\<lambda>audio. Inr audio) google_silent ''RIFF'' ''Google'' ''cmn-Hant-TW''
     = (None, [])
   \<and> text_to_speech google_silent ''hello'' ''Google'' ''zh-TW'' None = (None, [])"
proof -
  have "''Google'' \<noteq> ''google''" and "''Google'' \<noteq> ''openai''"
    by simp_all
  from unknown_provider_returns_none [OF this] show ?thesis
    by simp
qed

section \<open>Properties of the admin page\<close>

subsection \<open>Removing a document\<close>

text \<open>
  Claim C9. The remove handler calls the client first. When that call raises, the
  handler ends with the error and the catalog it started with; only the log has grown
  by the call. When it returns, the row of the document is deleted and nothing else
  of the catalog changes. In both cases exactly one remote call is issued.
\<close>

theorem tab_list_remove_atomic:
  "(\<forall>msg. vector_store_files_delete (client e) (calls w) vs_id fid = Inl msg
       \<longrightarrow> tab_list_remove e pid vs_id w fid =
             (w\<lparr>calls := calls w @ [VectorStoreFilesDelete vs_id fid]\<rparr>,
              Failed (Exception msg))
         \<and> db (fst (tab_list_remove e pid vs_id w fid)) = db w)
 \<and> (vector_store_files_delete (client e) (calls w) vs_id fid = Inr ()
       \<longrightarrow> snd (tab_list_remove e pid vs_id w fid) = Removed
         \<and> projects (db (fst (tab_list_remove e pid vs_id w fid))) = projects (db w)
         \<and> project_files (db (fst (tab_list_remove e pid vs_id w fid))) =
             filter (\<lambda>r. \<not> (pf_project_id r = pid \<and> file_id r = fid))
               (project_files (db w)))
 \<and> calls (fst (tab_list_remove e pid vs_id w fid)) =
       calls w @ [VectorStoreFilesDelete vs_id fid]"
  by (auto simp: tab_list_remove_def db_remove_project_file_def Let_def split: sum.splits)

theorem tab_list_remove_atomic_witness:
  "tab_list_remove admin_offline ''p1'' ''idx-1''
       \<lparr>db = acme_two_docs, calls = [], ticks = 0\<rparr> ''file-a''
     = (\<lparr>db = acme_two_docs, calls = [VectorStoreFilesDelete ''idx-1'' ''file-a''], ticks = 0\<rparr>,
        Failed (Exception ''connection error''))
   \<and> project_files (db (fst (tab_list_remove admin_demo ''p1'' ''idx-1''
         \<lparr>db = acme_two_docs, calls = [], ticks = 0\<rparr> ''file-a'')))
     = [\<lparr>pf_project_id = ''p1'', file_id = ''file-b'', filename = ''b.pdf'',
         sha256 = Some ''sha:BBBB'', added_at = ''s2''\<rparr>]"
proof -
  have refused: "vector_store_files_delete (client admin_offline)
        (calls \<lparr>db = acme_two_docs, calls = [], ticks = 0\<rparr>) ''idx-1'' ''file-a''
      = Inl ''connection error''"
    by (simp add: admin_offline_def refusing_def)
  have accepted: "vector_store_files_delete (client admin_demo)
        (calls \<lparr>db = acme_two_docs, calls = [], ticks = 0\<rparr>) ''idx-1'' ''file-a'' = Inr ()"
    by (simp add: admin_demo_def accepting_def)
  have a: "tab_list_remove admin_offline ''p1'' ''idx-1''
       \<lparr>db = acme_two_docs, calls = [], ticks = 0\<rparr> ''file-a''
     = (\<lparr>db = acme_two_docs, calls = [VectorStoreFilesDelete ''idx-1'' ''file-a''], ticks = 0\<rparr>,
        Failed (Exception ''connection error''))"
    using tab_list_remove_atomic [of admin_offline
        "\<lparr>db = acme_two_docs, calls = [], ticks = 0\<rparr>" "''idx-1''" "''file-a''" "''p1''"]
      refused
    by simp
  have b: "project_files (db (fst (tab_list_remove admin_demo ''p1'' ''idx-1''
         \<lparr>db = acme_two_docs, calls = [], ticks = 0\<rparr> ''file-a'')))
     = [\<lparr>pf_project_id = ''p1'', file_id = ''file-b'', filename = ''b.pdf'',
         sha256 = Some ''sha:BBBB'', added_at = ''s2''\<rparr>]"
    using tab_list_remove_atomic [of admin_demo
        "\<lparr>db = acme_two_docs, calls = [], ticks = 0\<rparr>" "''idx-1''" "''file-a''" "''p1''"]
      accepted
    by (simp add: acme_two_docs_def)
  from a b show ?thesis by simp
qed

subsection \<open>Uploading a document twice\<close>

lemma upload_one_skip:
  assumes "db_has_sha_in_project (db w) pid (sha256_bytes e (snd uf))"
  shows "upload_one e True pid vs_id w uf = (w, Skipped)"
  using assms by (simp add: upload_one_def Let_def)

lemma upload_one_Skipped:
  assumes "upload_one e True pid vs_id w uf = (w1, Skipped)"
  shows "w1 = w" and "db_has_sha_in_project (db w) pid (sha256_bytes e (snd uf))"
  using assms
  by (auto simp: upload_one_def Let_def db_add_project_file_def split: if_splits sum.splits)

lemma upload_one_Uploaded:
  assumes "upload_one e True pid vs_id w uf = (w1, Uploaded f)"
  shows "rows_with_sha (db w) pid (sha256_bytes e (snd uf)) = []"
    and "project_files (db w1) =
           filter (\<lambda>r. \<not> (pf_project_id r = pid \<and> file_id r = f)) (project_files (db w)) @
           [\<lparr>pf_project_id = pid, file_id = f, filename = fst uf,
             sha256 = Some (sha256_bytes e (snd uf)), added_at = now_iso e (ticks w)\<rparr>]"
  using assms
  by (auto simp: upload_one_def Let_def db_add_project_file_def db_has_sha_in_project_def
      rows_with_sha_def split: if_splits sum.splits)

text \<open>
  Claim C2, as the code has it. When the service refuses the first upload, nothing is
  recorded, so the second upload of the same bytes calls the service again and the
  project ends with no row for the fingerprint. And a project that already holds two
  rows of one fingerprint (two uploads with dedup switched off leave it so) keeps both
  when the bytes are uploaded twice with dedup on.
\<close>

theorem upload_twice_counterexample:
  "upload_one admin_offline True ''p1'' ''idx-1''
       \<lparr>db = acme_active, calls = [], ticks = 0\<rparr> (''a.pdf'', ''AAAA'')
     = (\<lparr>db = acme_active, calls = [FilesCreate ''a.pdf'' ''AAAA'' ''assistants''], ticks = 0\<rparr>,
        Failed (Exception ''connection error''))
   \<and> upload_one admin_offline True ''p1'' ''idx-1''
       \<lparr>db = acme_active, calls = [FilesCreate ''a.pdf'' ''AAAA'' ''assistants''], ticks = 0\<rparr>
       (''a.pdf'', ''AAAA'')
     = (\<lparr>db = acme_active,
         calls = [FilesCreate ''a.pdf'' ''AAAA'' ''assistants'',
                  FilesCreate ''a.pdf'' ''AAAA'' ''assistants''], ticks = 0\<rparr>,
        Failed (Exception ''connection error''))
   \<and> rows_with_sha acme_active ''p1'' (sha256_bytes admin_offline ''AAAA'') = []
   \<and> tab_upload admin_demo False ''p1'' ''idx-1''
       \<lparr>db = acme_active, calls = [], ticks = 0\<rparr>
       [(''a.pdf'', ''AAAA''), (''a-copy.pdf'', ''AAAA'')]
     = (\<lparr>db = acme_two_copies,
         calls = [FilesCreate ''a.pdf'' ''AAAA'' ''assistants'',
                  FileBatchesCreate ''idx-1'' [''file-a.pdf''],
                  FilesCreate ''a-copy.pdf'' ''AAAA'' ''assistants'',
                  FileBatchesCreate ''idx-1'' [''file-a-copy.pdf'']], ticks = 2\<rparr>,
        [Uploaded ''file-a.pdf'', Uploaded ''file-a-copy.pdf''])
   \<and> tab_upload admin_demo True ''p1'' ''idx-1''
       \<lparr>db = acme_two_copies, calls = [], ticks = 0\<rparr>
       [(''a.pdf'', ''AAAA''), (''a.pdf'', ''AAAA'')]
     = (\<lparr>db = acme_two_copies, calls = [], ticks = 0\<rparr>, [Skipped, Skipped])
   \<and> length (rows_with_sha acme_two_copies ''p1'' (sha256_bytes admin_demo ''AAAA'')) = 2"
  by (simp add: upload_one_def Let_def db_has_sha_in_project_def db_add_project_file_def
      rows_with_sha_def admin_offline_def admin_demo_def refusing_def accepting_def
      acme_active_def acme_two_copies_def)

lemma upload_one_Failed:
  assumes "upload_one e True pid vs_id w uf = (w1, Failed err)"
  shows "db w1 = db w"
    and "\<not> db_has_sha_in_project (db w) pid (sha256_bytes e (snd uf))"
  using assms
  by (auto simp: upload_one_def Let_def db_add_project_file_def split: if_splits sum.splits)

lemma upload_one_calls:
  assumes "\<not> db_has_sha_in_project (db w) pid (sha256_bytes e (snd uf))"
      and "upload_one e dedup pid vs_id w uf = (w', out)"
  shows "\<exists>rest. calls w' = calls w @ FilesCreate (fst uf) (snd uf) ''assistants'' # rest"
  using assms
  by (auto simp: upload_one_def Let_def db_add_project_file_def split: if_splits sum.splits)

text \<open>
  Claim C2, amended. Let the same bytes be uploaded twice to a project with dedup on.
  If the project holds at most one row of their fingerprint beforehand and the first
  upload does not fail (it is skipped because the fingerprint is there, or the service
  accepts it and the row is recorded), then the second upload is skipped: it leaves
  the whole state as it is, the log of remote calls included, so it issues no file
  upload and no index registration; the project holds exactly one row of the
  fingerprint; and the loop of the upload button over the two files does the same.
  If the first upload fails, it leaves the catalog as it was, and the second upload
  issues the remote file upload again.
\<close>

theorem upload_twice_dedup:
  assumes same: "snd uf1 = content" "snd uf2 = content"
      and first: "upload_one e True pid vs_id w uf1 = (w1, out1)"
      and second: "upload_one e True pid vs_id w1 uf2 = (w2, out2)"
  shows "((out1 = Skipped \<or> (\<exists>f. out1 = Uploaded f))
            \<and> length (rows_with_sha (db w) pid (sha256_bytes e content)) \<le> 1
          \<longrightarrow> out2 = Skipped \<and> w2 = w1 \<and> calls w2 = calls w1
            \<and> length (rows_with_sha (db w2) pid (sha256_bytes e content)) = 1
            \<and> tab_upload e True pid vs_id w [uf1, uf2] = (w1, [out1, Skipped]))
       \<and> (\<forall>err. out1 = Failed err
          \<longrightarrow> db w1 = db w
            \<and> (\<exists>rest. calls w2 = calls w1 @ FilesCreate (fst uf2) content ''assistants'' # rest))"
proof -
  let ?sha = "sha256_bytes e content"
  have good: "out2 = Skipped \<and> w2 = w1 \<and> calls w2 = calls w1
            \<and> length (rows_with_sha (db w2) pid ?sha) = 1
            \<and> tab_upload e True pid vs_id w [uf1, uf2] = (w1, [out1, Skipped])"
    if ok: "out1 = Skipped \<or> (\<exists>f. out1 = Uploaded f)"
      and before: "length (rows_with_sha (db w) pid ?sha) \<le> 1"
  proof -
    have one: "length (rows_with_sha (db w1) pid ?sha) = 1"
      using ok
    proof
      assume "out1 = Skipped"
      with first same have "w1 = w" and "db_has_sha_in_project (db w) pid ?sha"
        using upload_one_Skipped by blast+
      with before show ?thesis
        by (cases "rows_with_sha (db w) pid ?sha")
           (simp_all add: db_has_sha_in_project_def rows_with_sha_def)
    next
      assume "\<exists>f. out1 = Uploaded f"
      then obtain f where "out1 = Uploaded f" ..
      with first same upload_one_Uploaded [of e pid vs_id w uf1 w1 f]
      show ?thesis
        by (auto simp: rows_with_sha_def filter_empty_conv)
    qed
    then have has: "db_has_sha_in_project (db w1) pid (sha256_bytes e (snd uf2))"
      by (auto simp: db_has_sha_in_project_def rows_with_sha_def same)
    from upload_one_skip [OF has, of vs_id] second
    have "w2 = w1" and "out2 = Skipped" by simp_all
    moreover have "tab_upload e True pid vs_id w [uf1, uf2] = (w1, [out1, Skipped])"
      by (simp add: first upload_one_skip [OF has])
    ultimately show ?thesis using one by simp
  qed
  have bad: "db w1 = db w
      \<and> (\<exists>rest. calls w2 = calls w1 @ FilesCreate (fst uf2) content ''assistants'' # rest)"
    if failed: "out1 = Failed err" for err
  proof -
    from first failed have f: "upload_one e True pid vs_id w uf1 = (w1, Failed err)"
      by simp
    from upload_one_Failed [OF f] same
    have kept: "db w1 = db w"
      and "\<not> db_has_sha_in_project (db w1) pid (sha256_bytes e (snd uf2))"
      by simp_all
    from upload_one_calls [OF this(2) second] same kept show ?thesis
      by simp
  qed
  from good bad show ?thesis by blast
qed

theorem upload_twice_dedup_witness:
  "upload_one admin_demo True ''p1'' ''idx-1''
       \<lparr>db = acme_active, calls = [], ticks = 0\<rparr> (''a.pdf'', ''AAAA'')
     = (\<lparr>db = acme_active\<lparr>project_files :=
              [\<lparr>pf_project_id = ''p1'', file_id = ''file-a.pdf'', filename = ''a.pdf'',
                sha256 = Some ''sha:AAAA'', added_at = ''t''\<rparr>]\<rparr>,
         calls = [FilesCreate ''a.pdf'' ''AAAA'' ''assistants'',
                  FileBatchesCreate ''idx-1'' [''file-a.pdf'']], ticks = 1\<rparr>,
        Uploaded ''file-a.pdf'')
   \<and> upload_one admin_demo True ''p1'' ''idx-1''
       \<lparr>db = acme_active\<lparr>project_files :=
              [\<lparr>pf_project_id = ''p1'', file_id = ''file-a.pdf'', filename = ''a.pdf'',
                sha256 = Some ''sha:AAAA'', added_at = ''t''\<rparr>]\<rparr>,
         calls = [FilesCreate ''a.pdf'' ''AAAA'' ''assistants'',
                  FileBatchesCreate ''idx-1'' [''file-a.pdf'']], ticks = 1\<rparr>
       (''renamed.pdf'', ''AAAA'')
     = (\<lparr>db = acme_active\<lparr>project_files :=
              [\<lparr>pf_project_id = ''p1'', file_id = ''file-a.pdf'', filename = ''a.pdf'',
                sha256 = Some ''sha:AAAA'', added_at = ''t''\<rparr>]\<rparr>,
         calls = [FilesCreate ''a.pdf'' ''AAAA'' ''assistants'',
                  FileBatchesCreate ''idx-1'' [''file-a.pdf'']], ticks = 1\<rparr>,
        Skipped)
   \<and> upload_one admin_offline True ''p1'' ''idx-1''
       \<lparr>db = acme_active, calls = [], ticks = 0\<rparr> (''a.pdf'', ''AAAA'')
     = (\<lparr>db = acme_active, calls = [FilesCreate ''a.pdf'' ''AAAA'' ''assistants''], ticks = 0\<rparr>,
        Failed (Exception ''connection error''))
   \<and> (\<exists>rest. calls (fst (upload_one admin_offline True ''p1'' ''idx-1''
         \<lparr>db = acme_active, calls = [FilesCreate ''a.pdf'' ''AAAA'' ''assistants''], ticks = 0\<rparr>
         (''a.pdf'', ''AAAA'')))
       = [FilesCreate ''a.pdf'' ''AAAA'' ''assistants'']
         @ FilesCreate ''a.pdf'' ''AAAA'' ''assistants'' # rest)"
proof -
  let ?w = "\<lparr>db = acme_active, calls = [], ticks = 0\<rparr>"
  let ?w1 = "\<lparr>db = acme_active\<lparr>project_files :=
              [\<lparr>pf_project_id = ''p1'', file_id = ''file-a.pdf'', filename = ''a.pdf'',
                sha256 = Some ''sha:AAAA'', added_at = ''t''\<rparr>]\<rparr>,
         calls = [FilesCreate ''a.pdf'' ''AAAA'' ''assistants'',
                  FileBatchesCreate ''idx-1'' [''file-a.pdf'']], ticks = 1\<rparr>"
  let ?v1 = "\<lparr>db = acme_active, calls = [FilesCreate ''a.pdf'' ''AAAA'' ''assistants''],
              ticks = 0\<rparr>"
  have contents: "snd (''a.pdf'', ''AAAA'') = ''AAAA''" "snd (''renamed.pdf'', ''AAAA'') = ''AAAA''"
    by simp_all
  have first: "upload_one admin_demo True ''p1'' ''idx-1'' ?w (''a.pdf'', ''AAAA'')
                 = (?w1, Uploaded ''file-a.pdf'')"
    by (simp add: upload_one_def Let_def db_has_sha_in_project_def db_add_project_file_def
        admin_demo_def accepting_def acme_active_def)
  obtain w2 out2 where second:
    "upload_one admin_demo True ''p1'' ''idx-1'' ?w1 (''renamed.pdf'', ''AAAA'') = (w2, out2)"
    by (cases "upload_one admin_demo True ''p1'' ''idx-1'' ?w1 (''renamed.pdf'', ''AAAA'')")
  have before: "length (rows_with_sha (db ?w) ''p1'' (sha256_bytes admin_demo ''AAAA'')) \<le> 1"
    by (simp add: rows_with_sha_def acme_active_def)
  from upload_twice_dedup [OF contents first second] before
  have "out2 = Skipped" and "w2 = ?w1" by simp_all
  with second have skipped:
    "upload_one admin_demo True ''p1'' ''idx-1'' ?w1 (''renamed.pdf'', ''AAAA'') = (?w1, Skipped)"
    by simp
  have refused: "upload_one admin_offline True ''p1'' ''idx-1'' ?w (''a.pdf'', ''AAAA'')
                 = (?v1, Failed (Exception ''connection error''))"
    by (simp add: upload_one_def Let_def db_has_sha_in_project_def
        admin_offline_def refusing_def acme_active_def)
  obtain v2 out3 where again:
    "upload_one admin_offline True ''p1'' ''idx-1'' ?v1 (''a.pdf'', ''AAAA'') = (v2, out3)"
    by (cases "upload_one admin_offline True ''p1'' ''idx-1'' ?v1 (''a.pdf'', ''AAAA'')")
  from upload_twice_dedup [OF contents(1) contents(1) refused again]
  have "\<exists>rest. calls v2 = calls ?v1 @ FilesCreate ''a.pdf'' ''AAAA'' ''assistants'' # rest"
    by simp
  with again have called: "\<exists>rest. calls (fst (upload_one admin_offline True ''p1'' ''idx-1''
         ?v1 (''a.pdf'', ''AAAA'')))
       = [FilesCreate ''a.pdf'' ''AAAA'' ''assistants'']
         @ FilesCreate ''a.pdf'' ''AAAA'' ''assistants'' # rest"
    by simp
  from first skipped refused called show ?thesis by blast
qed

subsection \<open>Reconciliation and repair\<close>

lemma doc_ids_listing: "file_id ` set (db_list_project_files c pid) = doc_ids c pid"
  by (auto simp: db_list_project_files_def doc_ids_def)

lemma in_doc_ids:
  "x \<in> doc_ids c pid \<longleftrightarrow>
     (\<exists>r\<in>set (project_files c). pf_project_id r = pid \<and> file_id r = x)"
  by (auto simp: doc_ids_def)

lemma finite_doc_ids: "finite (doc_ids c pid)"
  by (simp add: doc_ids_def)

lemma doc_ids_add:
  assumes "db_add_project_file c ts pid fid fname sha = Inr c'"
  shows "doc_ids c' pid = insert fid (doc_ids c pid)"
    and "projects c' = projects c"
proof -
  from assms have pf: "project_files c' =
      filter (\<lambda>r. \<not> (pf_project_id r = pid \<and> file_id r = fid)) (project_files c) @
      [\<lparr>pf_project_id = pid, file_id = fid, filename = fname, sha256 = sha, added_at = ts\<rparr>]"
    and pr: "projects c' = projects c"
    by (auto simp: db_add_project_file_def)
  show "projects c' = projects c" by (rule pr)
  show "doc_ids c' pid = insert fid (doc_ids c pid)"
  proof (rule set_eqI)
    fix x
    show "x \<in> doc_ids c' pid \<longleftrightarrow> x \<in> insert fid (doc_ids c pid)"
      by (cases "x = fid") (auto simp: in_doc_ids pf)
  qed
qed

text \<open>
  The repair loop by itself does what it is written for: run on a list of ids, it
  adds exactly these to the project's documents and issues no remote call.
\<close>

lemma repair_effect:
  assumes "repair e pid fids w = (w', r)"
  shows "r = None \<and> calls w' = calls w \<and> projects (db w') = projects (db w)
       \<and> doc_ids (db w') pid = doc_ids (db w) pid \<union> set fids"
  using assms
proof (induction fids arbitrary: w)
  case Nil
  then show ?case by simp
next
  case (Cons fid fids)
  obtain c where c: "db_add_project_file (db w) (now_iso e (ticks w)) pid fid fid None = Inr c"
    by (simp add: db_add_project_file_def)
  with Cons.prems have "repair e pid fids (w\<lparr>ticks := Suc (ticks w), db := c\<rparr>) = (w', r)"
    by (simp add: Let_def)
  from Cons.IH [OF this] doc_ids_add [OF c]
  show ?case by auto
qed

lemma reconcile_listed:
  assumes "vector_store_files_list (client e) (calls w) vs_id 200 = Inr remote"
      and "file_ids remote = Some ids"
  shows "reconcile e pid vs_id w =
           (w\<lparr>calls := calls w @ [VectorStoreFilesList vs_id 200]\<rparr>,
            Inr (sorted_list_of_set (doc_ids (db w) pid - set ids),
                 sorted_list_of_set (set ids - doc_ids (db w) pid)))"
  using assms by (simp add: reconcile_def Let_def doc_ids_listing)

lemma reconcile_db: "db (fst (reconcile e pid vs_id w)) = db w"
  by (simp add: reconcile_def Let_def split: sum.splits option.splits)

text \<open>
  When an object of the listing has no attribute \<^verbatim>\<open>file_id\<close>, the run of the
  reconcile button ends in \<^verbatim>\<open>st.error\<close> and reports nothing.
\<close>

lemma tab_sync_attribute_error:
  assumes "vector_store_files_list (client e) (calls w) vs_id 200 = Inr remote"
      and "file_ids remote = None"
  shows "tab_sync e pid vs_id (Some ReconcileButton) w =
           (w\<lparr>calls := calls w @ [VectorStoreFilesList vs_id 200]\<rparr>,
            SyncFailed (AttributeError ''file_id''))"
  using assms by (simp add: tab_sync_def st_button_def reconcile_def)

text \<open>
  Claim C1, on the code. The reconciliation half holds: in the run the reconcile
  button triggers, when the listing returns objects that carry \<^verbatim>\<open>file_id\<close>, the
  tab reports two sorted, duplicate-free lists whose elements are exactly the local
  ids missing remotely and the remote ids missing locally, and only the log of remote
  calls has grown. The repair half does not: the repair button lives inside the block
  of the reconcile button, so the run its press triggers skips that block, shows
  nothing and leaves the state as it is. No run of the tab, whatever button triggered
  it, changes the catalog, so the local set never becomes the union.
\<close>

theorem tab_sync_never_repairs:
  "db (fst (tab_sync e pid vs_id pressed w)) = db w
   \<and> tab_sync e pid vs_id (Some RepairButton) w = (w, Idle)
   \<and> (\<forall>remote ids.
         vector_store_files_list (client e) (calls w) vs_id 200 = Inr remote
         \<and> file_ids remote = Some ids
       \<longrightarrow> (\<exists>missing_in_remote missing_in_local.
              tab_sync e pid vs_id (Some ReconcileButton) w =
                (w\<lparr>calls := calls w @ [VectorStoreFilesList vs_id 200]\<rparr>,
                 Report missing_in_remote missing_in_local)
            \<and> set missing_in_remote = doc_ids (db w) pid - set ids
            \<and> set missing_in_local = set ids - doc_ids (db w) pid
            \<and> sorted missing_in_remote \<and> distinct missing_in_remote
            \<and> sorted missing_in_local \<and> distinct missing_in_local))"
proof -
  have unchanged: "db (fst (tab_sync e pid vs_id pressed w)) = db w"
  proof (cases "pressed = Some ReconcileButton")
    case True
    obtain w1 res where r: "reconcile e pid vs_id w = (w1, res)"
      by (cases "reconcile e pid vs_id w")
    with reconcile_db [of e pid vs_id w] have "db w1 = db w" by simp
    with r True show ?thesis
      by (auto simp: tab_sync_def st_button_def split: sum.splits prod.splits)
  next
    case False
    then show ?thesis by (simp add: tab_sync_def st_button_def)
  qed
  have skipped: "tab_sync e pid vs_id (Some RepairButton) w = (w, Idle)"
    by (simp add: tab_sync_def st_button_def)
  have report: "\<exists>missing_in_remote missing_in_local.
              tab_sync e pid vs_id (Some ReconcileButton) w =
                (w\<lparr>calls := calls w @ [VectorStoreFilesList vs_id 200]\<rparr>,
                 Report missing_in_remote missing_in_local)
            \<and> set missing_in_remote = doc_ids (db w) pid - set ids
            \<and> set missing_in_local = set ids - doc_ids (db w) pid
            \<and> sorted missing_in_remote \<and> distinct missing_in_remote
            \<and> sorted missing_in_local \<and> distinct missing_in_local"
    if listed: "vector_store_files_list (client e) (calls w) vs_id 200 = Inr remote"
      and ids: "file_ids remote = Some ids" for remote ids
  proof -
    let ?mr = "sorted_list_of_set (doc_ids (db w) pid - set ids)"
    let ?ml = "sorted_list_of_set (set ids - doc_ids (db w) pid)"
    have "tab_sync e pid vs_id (Some ReconcileButton) w =
            (w\<lparr>calls := calls w @ [VectorStoreFilesList vs_id 200]\<rparr>, Report ?mr ?ml)"
      by (simp add: tab_sync_def st_button_def reconcile_listed [OF listed ids])
    moreover have "finite (doc_ids (db w) pid - set ids)" "finite (set ids - doc_ids (db w) pid)"
      by (simp_all add: finite_doc_ids)
    ultimately show ?thesis
      by (intro exI [of _ ?mr] exI [of _ ?ml]) simp
  qed
  from unchanged skipped report show ?thesis by blast
qed

text \<open>
  The failing run: the catalog holds \<open>file-a\<close> and \<open>file-b\<close>, the vector store lists
  \<open>file-b\<close> and \<open>ext-doc-9\<close>. The reconcile button reports \<open>ext-doc-9\<close> as missing
  locally; the repair button then does nothing, and the catalog still lacks it.
\<close>

theorem tab_sync_never_repairs_witness:
  "tab_sync admin_demo ''p1'' ''idx-1'' (Some ReconcileButton)
       \<lparr>db = acme_two_docs, calls = [], ticks = 0\<rparr>
     = (\<lparr>db = acme_two_docs, calls = [VectorStoreFilesList ''idx-1'' 200], ticks = 0\<rparr>,
        Report [''file-a''] [''ext-doc-9''])
   \<and> tab_sync admin_demo ''p1'' ''idx-1'' (Some RepairButton)
       \<lparr>db = acme_two_docs, calls = [VectorStoreFilesList ''idx-1'' 200], ticks = 0\<rparr>
     = (\<lparr>db = acme_two_docs, calls = [VectorStoreFilesList ''idx-1'' 200], ticks = 0\<rparr>, Idle)
   \<and> doc_ids acme_two_docs ''p1'' = {''file-a'', ''file-b''}
   \<and> ''ext-doc-9'' \<notin> doc_ids acme_two_docs ''p1''"
proof -
  let ?w = "\<lparr>db = acme_two_docs, calls = [], ticks = 0\<rparr>"
  let ?w1 = "\<lparr>db = acme_two_docs, calls = [VectorStoreFilesList ''idx-1'' 200], ticks = 0\<rparr>"
  have listed: "vector_store_files_list (client admin_demo) (calls ?w) ''idx-1'' 200
      = Inr [\<lparr>obj_id = ''file-b'', obj_file_id = Some ''file-b''\<rparr>,
             \<lparr>obj_id = ''ext-doc-9'', obj_file_id = Some ''ext-doc-9''\<rparr>]"
    by (simp add: admin_demo_def accepting_def)
  have ids: "file_ids [\<lparr>obj_id = ''file-b'', obj_file_id = Some ''file-b''\<rparr>,
                       \<lparr>obj_id = ''ext-doc-9'', obj_file_id = Some ''ext-doc-9''\<rparr>]
      = Some [''file-b'', ''ext-doc-9'']"
    by simp
  have local: "doc_ids acme_two_docs ''p1'' = {''file-a'', ''file-b''}"
    by (auto simp: in_doc_ids acme_two_docs_def)
  have report: "tab_sync admin_demo ''p1'' ''idx-1'' (Some ReconcileButton) ?w
      = (?w1, Report [''file-a''] [''ext-doc-9''])"
    by code_simp
  from tab_sync_never_repairs [of admin_demo "''p1''" "''idx-1''" "Some RepairButton" ?w1]
  have repair: "tab_sync admin_demo ''p1'' ''idx-1'' (Some RepairButton) ?w1 = (?w1, Idle)"
    by blast
  from report repair local show ?thesis by simp
qed

end
